theory Spec2Isabelle
  imports Main "HOL-Library.Sublist"
begin

section \<open>source-to-llm: the directory walker of index.js\<close>

text \<open>
  The development embeds the traversal-and-filtering core of \<^verbatim>\<open>src/index.js\<close>:
  \<^verbatim>\<open>loadGitignore\<close>, \<^verbatim>\<open>traverseDirectory\<close> and steps 6 to 8 of \<^verbatim>\<open>main\<close>.

  Strings are \<^typ>\<open>string\<close>. ASCII text is held as it is; the three box-drawing
  characters of the tree connectors are held as their UTF-8 bytes, the form in which
  the structure file is written.

  What lies outside \<^verbatim>\<open>index.js\<close> enters the model as follows. The file system is a
  tree of the outcomes of \<^verbatim>\<open>readdir\<close> and \<^verbatim>\<open>readFile\<close>; the outcome of reading a
  file of given bytes as UTF-8 is \<open>readFile_utf8\<close>. Paths are POSIX paths. The walk takes
  the regular-expression engine and the ignore instance as arguments, each of which may
  throw; where a statement needs a concrete engine it uses a fragment of the ECMAScript
  one, and where it needs concrete ignore rules it uses a model of a fragment of the
  \<^verbatim>\<open>ignore\<close> package, after the spec.
\<close>

subsection \<open>Text constants\<close>

definition nl :: string where
  "nl = [CHR 0x0A]"

text \<open>U+251C, U+2500, U+2514 and U+2502 in UTF-8.\<close>

definition box_tee :: string where
  "box_tee = [CHR 0xE2, CHR 0x94, CHR 0x9C]"

definition box_dash :: string where
  "box_dash = [CHR 0xE2, CHR 0x94, CHR 0x80]"

definition box_corner :: string where
  "box_corner = [CHR 0xE2, CHR 0x94, CHR 0x94]"

definition box_bar :: string where
  "box_bar = [CHR 0xE2, CHR 0x94, CHR 0x82]"

text \<open>The two connectors and the two continuation prefixes of lines 198 and 199.\<close>

definition connector_last :: string where
  "connector_last = box_corner @ box_dash @ box_dash @ '' ''"

definition connector_mid :: string where
  "connector_mid = box_tee @ box_dash @ box_dash @ '' ''"

definition indent_last :: string where
  "indent_last = ''    ''"

definition indent_mid :: string where
  "indent_mid = box_bar @ ''   ''"

subsection \<open>Configuration constants (lines 10 to 13)\<close>

definition DEFAULT_STRUCTURE_FILENAME :: string where
  "DEFAULT_STRUCTURE_FILENAME = ''structure.txt''"

definition DEFAULT_CONTENTS_FILENAME :: string where
  "DEFAULT_CONTENTS_FILENAME = ''contents.txt''"

definition ALWAYS_IGNORE :: "string list" where
  "ALWAYS_IGNORE = [''.git'', ''node_modules'', DEFAULT_STRUCTURE_FILENAME, DEFAULT_CONTENTS_FILENAME]"

subsection \<open>The file system and the console\<close>

text \<open>
  What the walker sees of the file system is the outcome of its two calls,
  \<^verbatim>\<open>fs.readdir(dir, {withFileTypes: true})\<close> and \<^verbatim>\<open>fs.readFile(file, "utf-8")\<close>.
  A rejected promise carries an error object, of which the code reads \<^verbatim>\<open>code\<close> and
  \<^verbatim>\<open>message\<close>.
\<close>

datatype io_error = IOError string string

fun err_code :: "io_error \<Rightarrow> string" where
  "err_code (IOError c m) = c"

fun err_message :: "io_error \<Rightarrow> string" where
  "err_message (IOError c m) = m"

datatype read_outcome = Content string | ReadFails io_error

text \<open>
  A node is what a directory entry names. \<open>File r\<close> is a regular file whose read has
  outcome \<open>r\<close>; \<open>Dir es\<close> is a directory whose listing succeeds with the entries \<open>es\<close>,
  in the order \<^verbatim>\<open>readdir\<close> returns them; \<open>DirUnreadable e\<close> is a directory whose
  listing fails with \<open>e\<close>; \<open>Other\<close> is an entry that is neither (a symbolic link, a
  socket, ...).
\<close>

datatype fs_node =
    File read_outcome
  | Dir "(string \<times> fs_node) list"
  | DirUnreadable io_error
  | Other

fun isDirectory :: "fs_node \<Rightarrow> bool" where
  "isDirectory (Dir es) = True"
| "isDirectory (DirUnreadable e) = True"
| "isDirectory n = False"

fun isFile :: "fs_node \<Rightarrow> bool" where
  "isFile (File r) = True"
| "isFile n = False"

fun readdir :: "fs_node \<Rightarrow> io_error + (string \<times> fs_node) list" where
  "readdir (Dir es) = Inr es"
| "readdir (DirUnreadable e) = Inl e"
| "readdir n = Inl (IOError ''ENOTDIR'' ''ENOTDIR: not a directory, scandir'')"

fun readFile :: "fs_node \<Rightarrow> read_outcome" where
  "readFile (File r) = r"
| "readFile n = ReadFails (IOError ''EISDIR'' ''EISDIR: illegal operation on a directory, read'')"

datatype console_line = Log string | Warn string

text \<open>
  The \<^verbatim>\<open>output\<close> object of the source (\<^verbatim>\<open>structure\<close>, \<^verbatim>\<open>contents\<close>), together with
  the console the walker writes to.
\<close>

record traversal_output =
  structure_text :: string
  contents_text :: string
  console :: "console_line list"

subsection \<open>Reading a file as UTF-8\<close>

text \<open>
  \<^verbatim>\<open>fs.readFile(path, "utf-8")\<close> reads the bytes of the file and decodes them as
  \<^verbatim>\<open>buffer.toString("utf-8")\<close> does. The decoding does not fail: a byte sequence that is
  not valid UTF-8 decodes to the replacement character U+FFFD, once for every maximal
  ill-formed part, and the read resolves with the text. Text is held here in UTF-8, so
  the decoder copies the well-formed sequences and puts the three bytes of U+FFFD in the
  place of the others. \<open>decode_utf8 needed lower upper pending bytes\<close> is the decoder in
  the state where \<open>needed\<close> continuation bytes are awaited, the next of them between
  \<open>lower\<close> and \<open>upper\<close>, after the bytes \<open>pending\<close> of the sequence begun.
\<close>

definition replacement_character :: string where
  "replacement_character = [CHR 0xEF, CHR 0xBF, CHR 0xBD]"

fun decode_utf8 :: "nat \<Rightarrow> nat \<Rightarrow> nat \<Rightarrow> string \<Rightarrow> string \<Rightarrow> string" where
  "decode_utf8 needed lower upper pending [] =
     (if needed = 0 then [] else replacement_character)"
| "decode_utf8 needed lower upper pending (b # bs) =
     (let n = (of_char b :: nat) in
      if needed = 0 then
        (if n \<le> 0x7F then b # decode_utf8 0 0x80 0xBF [] bs
         else if 0xC2 \<le> n \<and> n \<le> 0xDF then decode_utf8 1 0x80 0xBF [b] bs
         else if 0xE0 \<le> n \<and> n \<le> 0xEF then
           decode_utf8 2 (if n = 0xE0 then 0xA0 else 0x80) (if n = 0xED then 0x9F else 0xBF) [b] bs
         else if 0xF0 \<le> n \<and> n \<le> 0xF4 then
           decode_utf8 3 (if n = 0xF0 then 0x90 else 0x80) (if n = 0xF4 then 0x8F else 0xBF) [b] bs
         else replacement_character @ decode_utf8 0 0x80 0xBF [] bs)
      else if n < lower \<or> upper < n then
        replacement_character @ decode_utf8 0 0x80 0xBF [] (b # bs)
      else if needed = 1 then pending @ [b] @ decode_utf8 0 0x80 0xBF [] bs
      else decode_utf8 (needed - 1) 0x80 0xBF (pending @ [b]) bs)"

definition toString_utf8 :: "string \<Rightarrow> string" where
  "toString_utf8 bytes = decode_utf8 0 0x80 0xBF [] bytes"

text \<open>The outcome of \<^verbatim>\<open>fs.readFile(path, "utf-8")\<close> on a readable file of the given bytes.\<close>

definition readFile_utf8 :: "string \<Rightarrow> read_outcome" where
  "readFile_utf8 bytes = Content (toString_utf8 bytes)"

text \<open>The first eight bytes of a PNG image; the first of them is no UTF-8.\<close>

definition png_signature :: string where
  "png_signature = [CHR 0x89, CHR 0x50, CHR 0x4E, CHR 0x47, CHR 0x0D, CHR 0x0A, CHR 0x1A, CHR 0x0A]"

subsection \<open>Paths\<close>

text \<open>
  \<^verbatim>\<open>path.join\<close> and \<^verbatim>\<open>path.relative\<close> on the arguments the walker passes: a
  normalised absolute POSIX directory and the name of one of its entries (a name has no
  separator and is neither \<^verbatim>\<open>.\<close> nor \<^verbatim>\<open>..\<close>), respectively the root and a path
  below it.
\<close>

definition path_join :: "string \<Rightarrow> string \<Rightarrow> string" where
  "path_join dir name = (if dir = ''/'' then dir @ name else dir @ ''/'' @ name)"

definition path_relative :: "string \<Rightarrow> string \<Rightarrow> string" where
  "path_relative root p = (if root = ''/'' then drop 1 p else drop (length root + 1) p)"

fun split_slash :: "string \<Rightarrow> string list" where
  "split_slash [] = [[]]"
| "split_slash (c # cs) =
     (if c = CHR ''/'' then [] # split_slash cs
      else (case split_slash cs of [] \<Rightarrow> [[c]] | s # ss \<Rightarrow> (c # s) # ss))"

definition path_basename :: "string \<Rightarrow> string" where
  "path_basename p = last (split_slash p)"

subsection \<open>The whitelist: glob to regular expression (lines 179 to 189)\<close>

text \<open>
  \<^verbatim>\<open>pattern.replace(/\*\*/g, "(.+)")\<close>: every non-overlapping occurrence of two stars,
  from the left.
\<close>

fun replace_star_star :: "string \<Rightarrow> string" where
  "replace_star_star (a # b # cs) =
     (if a = CHR ''*'' \<and> b = CHR ''*'' then ''(.+)'' @ replace_star_star cs
      else a # replace_star_star (b # cs))"
| "replace_star_star cs = cs"

text \<open>\<^verbatim>\<open>.replace(/\*/g, "([^/]+)")\<close>: every remaining star.\<close>

fun replace_star :: "string \<Rightarrow> string" where
  "replace_star [] = []"
| "replace_star (c # cs) =
     (if c = CHR ''*'' then ''([^/]+)'' @ replace_star cs else c # replace_star cs)"

text \<open>The source text handed to \<^verbatim>\<open>new RegExp\<close> on line 182.\<close>

definition regex_source :: "string \<Rightarrow> string" where
  "regex_source pattern = ''^'' @ replace_star (replace_star_star pattern) @ ''$''"

text \<open>
  An exception of the JavaScript runtime or of a library (a \<^verbatim>\<open>SyntaxError\<close> of
  \<^verbatim>\<open>new RegExp\<close>, a \<^verbatim>\<open>RangeError\<close> of the ignore instance), by its message.
\<close>

datatype error = Thrown string

text \<open>
  The walker is parametric in the regular-expression engine: \<open>re src s\<close> is the result of
  \<^verbatim>\<open>new RegExp(src).test(s)\<close>, an error when the constructor throws. It is parametric
  in the ignore instance in the same way: \<open>ig p\<close> is the result of \<^verbatim>\<open>ig.ignores(p)\<close>.
\<close>

type_synonym regexp_engine = "string \<Rightarrow> string \<Rightarrow> error + bool"

type_synonym ignore_instance = "string \<Rightarrow> error + bool"

text \<open>
  \<^verbatim>\<open>only.some(pattern => new RegExp(...).test(checkPath))\<close>: the patterns are tried in
  order and the first match ends the search, so a later pattern is not compiled.
\<close>

fun matchesOnly :: "regexp_engine \<Rightarrow> string list \<Rightarrow> string \<Rightarrow> error + bool" where
  "matchesOnly re [] checkPath = Inr False"
| "matchesOnly re (pattern # rest) checkPath =
     (case re (regex_source pattern) checkPath of
        Inl e \<Rightarrow> Inl e
      | Inr True \<Rightarrow> Inr True
      | Inr False \<Rightarrow> matchesOnly re rest checkPath)"

text \<open>Line 176.\<close>

definition checkPath_of :: "string \<Rightarrow> string \<Rightarrow> string \<times> fs_node \<Rightarrow> string" where
  "checkPath_of currentDir rootDir entry =
     (let absolutePath = path_join currentDir (fst entry);
          relativePath = path_relative rootDir absolutePath
      in if isDirectory (snd entry) then relativePath @ ''/'' else relativePath)"

text \<open>The callback of \<^verbatim>\<open>entries.filter\<close>, lines 173 to 192.\<close>

definition keepEntry ::
  "regexp_engine \<Rightarrow> string \<Rightarrow> string \<Rightarrow> ignore_instance \<Rightarrow> string list \<Rightarrow>
   string \<times> fs_node \<Rightarrow> error + bool" where
  "keepEntry re currentDir rootDir ig only entry =
     (let checkPath = checkPath_of currentDir rootDir entry in
      if only \<noteq> [] then
        (case matchesOnly re only checkPath of
           Inl e \<Rightarrow> Inl e
         | Inr False \<Rightarrow> Inr False
         | Inr True \<Rightarrow> (case ig checkPath of Inl e \<Rightarrow> Inl e | Inr b \<Rightarrow> Inr (\<not> b)))
      else (case ig checkPath of Inl e \<Rightarrow> Inl e | Inr b \<Rightarrow> Inr (\<not> b)))"

text \<open>\<^verbatim>\<open>Array.prototype.filter\<close> with a callback that may throw.\<close>

fun filterE :: "('a \<Rightarrow> error + bool) \<Rightarrow> 'a list \<Rightarrow> error + 'a list" where
  "filterE keep [] = Inr []"
| "filterE keep (x # xs) =
     (case keep x of
        Inl e \<Rightarrow> Inl e
      | Inr b \<Rightarrow>
          (case filterE keep xs of
             Inl e \<Rightarrow> Inl e
           | Inr ys \<Rightarrow> Inr (if b then x # ys else ys)))"

definition validEntries ::
  "regexp_engine \<Rightarrow> string \<Rightarrow> string \<Rightarrow> ignore_instance \<Rightarrow> string list \<Rightarrow>
   (string \<times> fs_node) list \<Rightarrow> error + (string \<times> fs_node) list" where
  "validEntries re currentDir rootDir ig only entries =
     filterE (keepEntry re currentDir rootDir ig only) entries"

subsection \<open>The walk (lines 161 to 228)\<close>

text \<open>\<^verbatim>\<open>String.prototype.includes\<close>.\<close>

fun str_includes :: "string \<Rightarrow> string \<Rightarrow> bool" where
  "str_includes [] sub = (sub = [])"
| "str_includes (c # cs) sub = (prefix sub (c # cs) \<or> str_includes cs sub)"

text \<open>
  Lines 209 to 225: the read of a regular file. A read that succeeds appends the optional
  per-file header, the content and a newline; a read that fails writes one line to the
  console, a log when the message mentions \<^verbatim>\<open>invalid\<close> or \<^verbatim>\<open>buffer\<close> and a warning
  otherwise.
\<close>

definition file_header :: "string \<Rightarrow> string" where
  "file_header relativePath = nl @ ''/* --- File: '' @ relativePath @ '' --- */'' @ nl @ nl"

definition buildContents :: "bool \<Rightarrow> string \<Rightarrow> fs_node \<Rightarrow> traversal_output \<Rightarrow> traversal_output" where
  "buildContents includeContentsHeader relativePath node out =
     (case readFile node of
        Content content \<Rightarrow>
          (let out1 = (if includeContentsHeader
                       then out\<lparr>contents_text := contents_text out @ file_header relativePath\<rparr>
                       else out);
               out2 = out1\<lparr>contents_text := contents_text out1 @ content\<rparr>
           in out2\<lparr>contents_text := contents_text out2 @ nl\<rparr>)
      | ReadFails readError \<Rightarrow>
          (if str_includes (err_message readError) ''invalid''
              \<or> str_includes (err_message readError) ''buffer''
           then out\<lparr>console := console out @
                  [Log (''Skipping likely binary file: '' @ relativePath)]\<rparr>
           else out\<lparr>console := console out @
                  [Warn (''Warning: Could not read file '' @ relativePath @ '': '' @
                         err_message readError)]\<rparr>))"

lemma filterE_size:
  "filterE keep xs = Inr ys \<Longrightarrow> size_list f ys \<le> size_list f xs"
proof (induction xs arbitrary: ys)
  case Nil
  then show ?case by simp
next
  case (Cons x xs)
  then show ?case
    by (fastforce split: sum.splits if_splits)
qed

text \<open>
  \<open>traverseDirectory\<close> is the function of the source, with the node found at
  \<open>currentDir\<close> as an extra argument; \<open>visitEntries\<close> is its \<^verbatim>\<open>for\<close> loop over
  \<^verbatim>\<open>validEntries\<close> from index \<open>i\<close> on, where \<^verbatim>\<open>isLast\<close> holds when no entry follows.
  The tree prefix of the source is \<open>pfx\<close> here.
  The result is the output as mutated so far, with the exception that ended the walk, if
  one did: an exception leaves the mutations made before it in place.
\<close>

function traverseDirectory ::
    "regexp_engine \<Rightarrow> fs_node \<Rightarrow> string \<Rightarrow> string \<Rightarrow> ignore_instance \<Rightarrow> string \<Rightarrow>
     traversal_output \<Rightarrow> string list \<Rightarrow> bool \<Rightarrow> error option \<times> traversal_output"
  and visitEntries ::
    "regexp_engine \<Rightarrow> string \<Rightarrow> string \<Rightarrow> ignore_instance \<Rightarrow> string \<Rightarrow> string list \<Rightarrow> bool \<Rightarrow>
     (string \<times> fs_node) list \<Rightarrow> traversal_output \<Rightarrow> error option \<times> traversal_output"
where
  "traverseDirectory re node currentDir rootDir ig pfx out only includeContentsHeader =
     (case readdir node of
        Inl e \<Rightarrow>
          (None, out\<lparr>console := console out @
             [Warn (''Warning: Could not read directory '' @ currentDir @ '': '' @ err_message e)]\<rparr>)
      | Inr entries \<Rightarrow>
          (case validEntries re currentDir rootDir ig only entries of
             Inl e \<Rightarrow> (Some e, out)
           | Inr ves \<Rightarrow>
               visitEntries re currentDir rootDir ig pfx only includeContentsHeader ves out))"
| "visitEntries re currentDir rootDir ig pfx only includeContentsHeader [] out = (None, out)"
| "visitEntries re currentDir rootDir ig pfx only includeContentsHeader (entry # rest) out =
     (let absolutePath = path_join currentDir (fst entry);
          isLast = (rest = []);
          connector = (if isLast then connector_last else connector_mid);
          newPrefix = pfx @ (if isLast then indent_last else indent_mid);
          out1 = out\<lparr>structure_text := structure_text out @ pfx @ connector @ fst entry @ nl\<rparr>
      in if isDirectory (snd entry) then
           (case traverseDirectory re (snd entry) absolutePath rootDir ig newPrefix out1 only
                   includeContentsHeader of
              (Some e, out2) \<Rightarrow> (Some e, out2)
            | (None, out2) \<Rightarrow>
                visitEntries re currentDir rootDir ig pfx only includeContentsHeader rest out2)
         else if isFile (snd entry) then
           visitEntries re currentDir rootDir ig pfx only includeContentsHeader rest
             (buildContents includeContentsHeader (path_relative rootDir absolutePath) (snd entry) out1)
         else visitEntries re currentDir rootDir ig pfx only includeContentsHeader rest out1)"
  by pat_completeness auto
termination
proof (relation "measure (case_sum (\<lambda>(re, node, rest). size node)
    (\<lambda>(re, currentDir, rootDir, ig, pfx, only, hdr, ves, out).
       size_list (size_prod (\<lambda>x. 0) size) ves))")
  show "wf (measure (case_sum (\<lambda>(re, node, rest). size node)
    (\<lambda>(re, currentDir, rootDir, ig, pfx, only, hdr, ves, out).
       size_list (size_prod (\<lambda>x. 0) size) ves)))"
    by simp
next
  fix re :: regexp_engine and node currentDir rootDir and ig :: ignore_instance
    and pfx :: string and out :: traversal_output and only :: "string list"
    and includeContentsHeader :: bool and entries ves
  assume "readdir node = Inr entries"
    and "validEntries re currentDir rootDir ig only entries = Inr ves"
  then show "(Inr (re, currentDir, rootDir, ig, pfx, only, includeContentsHeader, ves, out),
              Inl (re, node, currentDir, rootDir, ig, pfx, out, only, includeContentsHeader))
             \<in> measure (case_sum (\<lambda>(re, node, rest). size node)
                 (\<lambda>(re, currentDir, rootDir, ig, pfx, only, hdr, ves, out).
                    size_list (size_prod (\<lambda>x. 0) size) ves))"
    using filterE_size [of "keepEntry re currentDir rootDir ig only" entries ves
        "size_prod (\<lambda>x. 0) size"]
    by (cases node) (auto simp: validEntries_def)
qed (auto simp: less_Suc_eq_le)

declare traverseDirectory.simps [simp del]

subsection \<open>A regular-expression engine for the whitelist patterns\<close>

text \<open>
  A fragment of the ECMAScript regular expressions, enough for the sources that
  \<open>regex_source\<close> builds from globs of literal characters, dots and stars: the source is
  \<^verbatim>\<open>^\<close>, then a sequence of literal characters, \<^verbatim>\<open>.\<close>, \<^verbatim>\<open>(.+)\<close> and \<^verbatim>\<open>([^/]+)\<close>, then
  \<^verbatim>\<open>$\<close>. A dot matches any character but a line terminator. A source outside the
  fragment is reported as an error of this engine, whatever the runtime does with it.
\<close>

datatype rx_token = Lit char | AnyChar | AnyPlus | NoSlashPlus

definition rx_meta :: "char list" where
  "rx_meta = CHR 0x5C # ''^$.|?*+()[]{}''"

fun rx_tokenize :: "string \<Rightarrow> rx_token list option" where
  "rx_tokenize [] = Some []"
| "rx_tokenize (c # cs) =
     (if prefix ''(.+)'' (c # cs) then map_option (Cons AnyPlus) (rx_tokenize (drop 3 cs))
      else if prefix ''([^/]+)'' (c # cs) then map_option (Cons NoSlashPlus) (rx_tokenize (drop 6 cs))
      else if c = CHR ''.'' then map_option (Cons AnyChar) (rx_tokenize cs)
      else if c \<in> set rx_meta then None
      else map_option (Cons (Lit c)) (rx_tokenize cs))"

definition dot_matches :: "char \<Rightarrow> bool" where
  "dot_matches c = (c \<noteq> CHR 0x0A \<and> c \<noteq> CHR 0x0D)"

fun rx_match :: "rx_token list \<Rightarrow> string \<Rightarrow> bool" where
  "rx_match [] s = (s = [])"
| "rx_match (Lit c # ts) s = (case s of [] \<Rightarrow> False | x # xs \<Rightarrow> x = c \<and> rx_match ts xs)"
| "rx_match (AnyChar # ts) s =
     (case s of [] \<Rightarrow> False | x # xs \<Rightarrow> dot_matches x \<and> rx_match ts xs)"
| "rx_match (AnyPlus # ts) s =
     (case s of [] \<Rightarrow> False
      | x # xs \<Rightarrow> dot_matches x \<and> (rx_match ts xs \<or> rx_match (AnyPlus # ts) xs))"
| "rx_match (NoSlashPlus # ts) s =
     (case s of [] \<Rightarrow> False
      | x # xs \<Rightarrow> x \<noteq> CHR ''/'' \<and> (rx_match ts xs \<or> rx_match (NoSlashPlus # ts) xs))"

definition js_regexp_test :: regexp_engine where
  "js_regexp_test src s =
     (case src of
        [] \<Rightarrow> Inl (Thrown ''regular expression outside the fragment'')
      | c # body \<Rightarrow>
          (if c = CHR ''^'' \<and> body \<noteq> [] \<and> last body = CHR ''$'' then
             (case rx_tokenize (butlast body) of
                None \<Rightarrow> Inl (Thrown ''regular expression outside the fragment'')
              | Some ts \<Rightarrow> Inr (rx_match ts s))
           else Inl (Thrown ''regular expression outside the fragment'')))"

subsection \<open>The ignore library\<close>

text \<open>
  Modelled from the spec: the \<^verbatim>\<open>ignore\<close> package that \<^verbatim>\<open>index.js\<close> imports is not among
  the sources. The spec (4.1) gives its matching as the VCS-ignore conventions: rules are
  line based; \<^verbatim>\<open>*\<close> matches within a path segment and \<^verbatim>\<open>**\<close> across segments; a
  leading \<^verbatim>\<open>/\<close> anchors a rule to the root; a trailing \<^verbatim>\<open>/\<close> restricts it to
  directories; \<^verbatim>\<open>!\<close> negates a prior rule; a directory is tested with a trailing
  separator. By the same conventions a rule without a separator matches at any depth, a
  later matching rule overrides an earlier one, and a path below an ignored directory is
  ignored. Blank lines and lines that start with \<^verbatim>\<open>#\<close> are no rules.

  The model covers a fragment of the conventions: patterns of literal characters, stars
  and separators, with \<^verbatim>\<open>**\<close> as a whole segment that is not the last. The conventions
  also have \<^verbatim>\<open>?\<close>, bracket expressions, escapes with a backslash, trailing blanks that
  are stripped, and a trailing \<^verbatim>\<open>**\<close>; a pattern with one of these is outside the
  fragment (\<open>in_fragment\<close> is false of its rule), and an instance that holds such a rule
  answers no query: \<open>instance_of\<close> reports an error of the model.
\<close>

record ignore_rule =
  negative :: bool
  dir_only :: bool
  anchored :: bool
  segments :: "string list"
  in_fragment :: bool

definition segment_in_fragment :: "string \<Rightarrow> bool" where
  "segment_in_fragment s = (s = ''**'' \<or> \<not> str_includes s ''**'')"

definition pattern_in_fragment :: "string \<Rightarrow> string list \<Rightarrow> bool" where
  "pattern_in_fragment line segs =
     (list_all (\<lambda>c. c \<notin> set (CHR 0x5C # ''?[]'')) line \<and>
      last line \<noteq> CHR '' '' \<and> last line \<noteq> CHR 0x09 \<and>
      list_all segment_in_fragment segs \<and> last segs \<noteq> ''**'')"

definition parse_rule :: "string \<Rightarrow> ignore_rule option" where
  "parse_rule line =
     (if list_all (\<lambda>c. c = CHR '' '') line \<or> hd line = CHR ''#'' then None
      else
        (let neg = (hd line = CHR ''!'');
             body = (if neg then tl line else line);
             dironly = (body \<noteq> [] \<and> last body = CHR ''/'');
             body1 = (if dironly then butlast body else body);
             anch = (CHR ''/'' \<in> set body1);
             body2 = (if body1 \<noteq> [] \<and> hd body1 = CHR ''/'' then tl body1 else body1)
         in if body2 = [] then None
            else Some \<lparr>negative = neg, dir_only = dironly, anchored = anch,
                         segments = split_slash body2,
                         in_fragment = pattern_in_fragment line (split_slash body2)\<rparr>))"

fun glob_segment :: "string \<Rightarrow> string \<Rightarrow> bool" where
  "glob_segment [] s = (s = [])"
| "glob_segment (c # p) s =
     (if c = CHR ''*''
      then (glob_segment p s \<or> (case s of [] \<Rightarrow> False | x # xs \<Rightarrow> glob_segment (c # p) xs))
      else (case s of [] \<Rightarrow> False | x # xs \<Rightarrow> x = c \<and> glob_segment p xs))"

fun glob_segments :: "string list \<Rightarrow> string list \<Rightarrow> bool" where
  "glob_segments [] ss = (ss = [])"
| "glob_segments (g # gs) ss =
     (if g = ''**''
      then (glob_segments gs ss \<or> (case ss of [] \<Rightarrow> False | x # xs \<Rightarrow> glob_segments (g # gs) xs))
      else (case ss of [] \<Rightarrow> False | x # xs \<Rightarrow> glob_segment g x \<and> glob_segments gs xs))"

definition rule_matches :: "ignore_rule \<Rightarrow> string list \<Rightarrow> bool \<Rightarrow> bool" where
  "rule_matches r segs is_dir =
     ((if dir_only r then is_dir else True) \<and>
      (if anchored r then glob_segments (segments r) segs
       else glob_segments (''**'' # segments r) segs))"

text \<open>The rules in order: the last rule that matches decides.\<close>

fun test_rules :: "ignore_rule list \<Rightarrow> string list \<Rightarrow> bool \<Rightarrow> bool \<Rightarrow> bool" where
  "test_rules [] segs is_dir ignored = ignored"
| "test_rules (r # rs) segs is_dir ignored =
     test_rules rs segs is_dir (if rule_matches r segs is_dir then \<not> negative r else ignored)"

text \<open>The parents first, from the root down: below an ignored directory all is ignored.\<close>

fun test_path :: "ignore_rule list \<Rightarrow> string list \<Rightarrow> string list \<Rightarrow> bool \<Rightarrow> bool" where
  "test_path rs parents [] is_dir = False"
| "test_path rs parents [s] is_dir = test_rules rs (parents @ [s]) is_dir False"
| "test_path rs parents (s # ss) is_dir =
     (test_rules rs (parents @ [s]) True False \<or> test_path rs (parents @ [s]) ss is_dir)"

definition ig_ignores :: "ignore_rule list \<Rightarrow> string \<Rightarrow> bool" where
  "ig_ignores rs checkPath =
     (let is_dir = (checkPath \<noteq> [] \<and> last checkPath = CHR ''/'');
          p = (if is_dir then butlast checkPath else checkPath)
      in test_path rs [] (split_slash p) is_dir)"

text \<open>\<^verbatim>\<open>ig.add\<close> with an array of patterns, and with the text of a rules file.\<close>

definition ig_add :: "ignore_rule list \<Rightarrow> string list \<Rightarrow> ignore_rule list" where
  "ig_add rs patterns = rs @ List.map_filter parse_rule patterns"

fun split_lines :: "string \<Rightarrow> string list" where
  "split_lines [] = [[]]"
| "split_lines (c # cs) =
     (if c = CHR 0x0A then [] # split_lines cs
      else (case split_lines cs of [] \<Rightarrow> [[c]] | l # ls \<Rightarrow> (c # l) # ls))"

definition strip_cr :: "string \<Rightarrow> string" where
  "strip_cr l = (if l \<noteq> [] \<and> last l = CHR 0x0D then butlast l else l)"

definition ig_add_text :: "ignore_rule list \<Rightarrow> string \<Rightarrow> ignore_rule list" where
  "ig_add_text rs content = ig_add rs (map strip_cr (split_lines content))"

definition instance_of :: "ignore_rule list \<Rightarrow> ignore_instance" where
  "instance_of rs =
     (\<lambda>checkPath.
        if list_all in_fragment rs then Inr (ig_ignores rs checkPath)
        else Inl (Thrown ''ignore pattern outside the modelled fragment''))"

subsection \<open>Loading the rules and starting the walk (lines 129 to 149, 347 to 359)\<close>

text \<open>
  \<open>loadGitignore\<close> is given the outcome of reading \<^verbatim>\<open>.gitignore\<close> in the target
  directory. It returns the rules and the lines it writes to the console.
\<close>

definition loadGitignore ::
  "string \<Rightarrow> bool \<Rightarrow> read_outcome \<Rightarrow> ignore_rule list \<times> console_line list" where
  "loadGitignore targetDir useGitignore gitignoreFile =
     (let ig = ig_add [] ALWAYS_IGNORE in
      if useGitignore then
        (case gitignoreFile of
           Content gitignoreContent \<Rightarrow>
             (ig_add_text ig gitignoreContent,
              [Log (''Loaded rules from '' @ path_join targetDir ''.gitignore'')])
         | ReadFails e \<Rightarrow>
             (ig,
              [if err_code e = ''ENOENT''
               then Log ''.gitignore not found, using default ignore rules.''
               else Warn (''Warning: Could not read .gitignore: '' @ err_message e)]))
      else (ig, [Log ''.gitignore processing skipped as per configuration.'']))"

text \<open>The fields of the configuration that the walk reads, and their defaults (line 278).\<close>

record config =
  cfg_gitignore :: bool
  cfg_ignores :: "string list"
  cfg_only :: "string list"
  cfg_includeContentsHeader :: bool

definition default_config :: config where
  "default_config =
     \<lparr>cfg_gitignore = True, cfg_ignores = [], cfg_only = [], cfg_includeContentsHeader = True\<rparr>"

text \<open>
  Steps 6 to 8 of \<^verbatim>\<open>main\<close>: the rules, the initial output and the walk from the
  target directory, whose node is \<open>root\<close>.
\<close>

definition main ::
  "regexp_engine \<Rightarrow> string \<Rightarrow> config \<Rightarrow> read_outcome \<Rightarrow> fs_node \<Rightarrow>
   error option \<times> traversal_output" where
  "main re targetDir cfg gitignoreFile root =
     (let loaded = loadGitignore targetDir (cfg_gitignore cfg) gitignoreFile;
          ig = ig_add (fst loaded) (cfg_ignores cfg);
          out = \<lparr>structure_text = path_basename targetDir @ nl,
                  contents_text =
                    (if cfg_includeContentsHeader cfg
                     then ''/* --- Contents from directory: '' @ targetDir @ '' --- */'' @ nl
                     else []),
                  console = snd loaded @ [Log ''Starting directory traversal...'']\<rparr>
      in traverseDirectory re root targetDir targetDir (instance_of ig) [] out
           (cfg_only cfg) (cfg_includeContentsHeader cfg))"

subsection \<open>Notions used in the statements\<close>

text \<open>The output with nothing in it, and an output with the text of another appended.\<close>

definition empty_output :: traversal_output where
  "empty_output = \<lparr>structure_text = [], contents_text = [], console = []\<rparr>"

definition extend :: "traversal_output \<Rightarrow> traversal_output \<Rightarrow> traversal_output" where
  "extend a b =
     \<lparr>structure_text = structure_text a @ structure_text b,
      contents_text = contents_text a @ contents_text b,
      console = console a @ console b\<rparr>"

text \<open>An engine or an ignore instance that returns on every argument.\<close>

definition never_throws :: "('a \<Rightarrow> error + bool) \<Rightarrow> bool" where
  "never_throws f = (\<forall>x. \<exists>b. f x = Inr b)"

text \<open>The engine compiles every pattern of the whitelist.\<close>

definition engine_accepts :: "regexp_engine \<Rightarrow> string list \<Rightarrow> bool" where
  "engine_accepts re only = list_all (\<lambda>pattern. never_throws (re (regex_source pattern))) only"

text \<open>The outcome of reading a \<^verbatim>\<open>.gitignore\<close> that does not exist.\<close>

definition enoent :: read_outcome where
  "enoent = ReadFails (IOError ''ENOENT'' ''ENOENT: no such file or directory, open .gitignore'')"

text \<open>
  The structure text of one directory visit, in the words of the spec (4.2, steps 5 and
  6): each surviving entry gives a line of the tree prefix, a connector and its name, the
  branching connector for all but the last survivor and the terminal one for the last;
  the lines of a directory's own walk follow its line, under the prefix extended by a
  bar and three spaces, or by four spaces below the last survivor.
\<close>

definition subtree_text ::
  "regexp_engine \<Rightarrow> string \<Rightarrow> string \<Rightarrow> ignore_instance \<Rightarrow> string list \<Rightarrow> bool \<Rightarrow>
   string \<Rightarrow> string \<times> fs_node \<Rightarrow> string" where
  "subtree_text re currentDir rootDir ig only hdr newPrefix entry =
     (if isDirectory (snd entry)
      then structure_text (snd (traverseDirectory re (snd entry) (path_join currentDir (fst entry))
             rootDir ig newPrefix empty_output only hdr))
      else [])"

definition rendered_entry ::
  "regexp_engine \<Rightarrow> string \<Rightarrow> string \<Rightarrow> ignore_instance \<Rightarrow> string list \<Rightarrow> bool \<Rightarrow>
   string \<Rightarrow> bool \<Rightarrow> string \<times> fs_node \<Rightarrow> string" where
  "rendered_entry re currentDir rootDir ig only hdr pfx is_last entry =
     pfx @ (if is_last then connector_last else connector_mid) @ fst entry @ nl @
     subtree_text re currentDir rootDir ig only hdr
       (pfx @ (if is_last then indent_last else indent_mid)) entry"

definition rendered_listing ::
  "regexp_engine \<Rightarrow> string \<Rightarrow> string \<Rightarrow> ignore_instance \<Rightarrow> string list \<Rightarrow> bool \<Rightarrow>
   string \<Rightarrow> (string \<times> fs_node) list \<Rightarrow> string" where
  "rendered_listing re currentDir rootDir ig only hdr pfx survivors =
     (if survivors = [] then []
      else concat (map (rendered_entry re currentDir rootDir ig only hdr pfx False)
                    (butlast survivors)) @
           rendered_entry re currentDir rootDir ig only hdr pfx True (last survivors))"

section \<open>Properties of the walk\<close>

subsection \<open>The walk only appends\<close>

lemma extend_empty: "extend a empty_output = a"
  by (simp add: extend_def empty_output_def)

lemma extend_structure:
  "(extend a b)\<lparr>structure_text := structure_text (extend a b) @ s\<rparr> =
     extend a (b\<lparr>structure_text := structure_text b @ s\<rparr>)"
  by (simp add: extend_def)

lemma extend_console:
  "(extend a b)\<lparr>console := console (extend a b) @ l\<rparr> =
     extend a (b\<lparr>console := console b @ l\<rparr>)"
  by (simp add: extend_def)

lemma buildContents_extend:
  "buildContents h p n (extend a b) = extend a (buildContents h p n b)"
  by (simp add: buildContents_def extend_def Let_def split: read_outcome.splits)

text \<open>
  What a walk does to its output does not depend on what the output holds: the walk from
  \<open>extend a b\<close> is the walk from \<open>b\<close> with \<open>a\<close> in front.
\<close>

lemma walk_frame:
  "traverseDirectory re node currentDir rootDir ig pfx (extend a b) only h =
     (case traverseDirectory re node currentDir rootDir ig pfx b only h of
        (r, b') \<Rightarrow> (r, extend a b'))"
  "visitEntries re currentDir rootDir ig pfx only h ves (extend a b) =
     (case visitEntries re currentDir rootDir ig pfx only h ves b of
        (r, b') \<Rightarrow> (r, extend a b'))"
proof (induction re node currentDir rootDir ig pfx b only h
    and re currentDir rootDir ig pfx only h ves b
    rule: traverseDirectory_visitEntries.induct)
  case (1 re node currentDir rootDir ig pfx out only includeContentsHeader)
  then show ?case
    by (auto simp: traverseDirectory.simps extend_console split: sum.splits)
next
  case (2 re currentDir rootDir ig pfx only includeContentsHeader out)
  then show ?case by simp
next
  case (3 re currentDir rootDir ig pfx only includeContentsHeader entry rest out)
  let ?abs = "path_join currentDir (fst entry)"
  let ?conn = "if rest = [] then connector_last else connector_mid"
  let ?np = "pfx @ (if rest = [] then indent_last else indent_mid)"
  let ?out1 = "out\<lparr>structure_text := structure_text out @ pfx @ ?conn @ fst entry @ nl\<rparr>"
  show ?case
  proof (cases "isDirectory (snd entry)")
    case True
    note IH1 = 3(1) [OF refl refl refl refl refl True]
    obtain r o2 where eq: "traverseDirectory re (snd entry) ?abs rootDir ig ?np ?out1 only
        includeContentsHeader = (r, o2)"
      by (cases "traverseDirectory re (snd entry) ?abs rootDir ig ?np ?out1 only
        includeContentsHeader")
    show ?thesis
    proof (cases r)
      case None
      note IH2 = 3(2) [OF refl refl refl refl refl True eq [symmetric] None]
      show ?thesis
        using True IH1 IH2 eq None
        by (simp add: Let_def extend_structure split: prod.splits)
    next
      case (Some e)
      show ?thesis
        using True IH1 eq Some
        by (simp add: Let_def extend_structure split: prod.splits)
    qed
  next
    case False
    note nd = False
    show ?thesis
    proof (cases "isFile (snd entry)")
      case True
      show ?thesis
        using nd True 3(3) [OF refl refl refl refl refl nd True]
        by (simp add: Let_def extend_structure buildContents_extend)
    next
      case False
      show ?thesis
        using nd False 3(4) [OF refl refl refl refl refl nd False]
        by (simp add: Let_def extend_structure)
    qed
  qed
qed

lemma traverseDirectory_from_empty:
  "traverseDirectory re node currentDir rootDir ig pfx out only h =
     (fst (traverseDirectory re node currentDir rootDir ig pfx empty_output only h),
      extend out (snd (traverseDirectory re node currentDir rootDir ig pfx empty_output only h)))"
  using walk_frame(1) [of re node currentDir rootDir ig pfx out empty_output only h]
  by (simp add: extend_empty split: prod.splits)

lemma visitEntries_from_empty:
  "visitEntries re currentDir rootDir ig pfx only h ves out =
     (fst (visitEntries re currentDir rootDir ig pfx only h ves empty_output),
      extend out (snd (visitEntries re currentDir rootDir ig pfx only h ves empty_output)))"
  using walk_frame(2) [of re currentDir rootDir ig pfx only h ves out empty_output]
  by (simp add: extend_empty split: prod.splits)

lemma buildContents_from_empty:
  "buildContents h p n out = extend out (buildContents h p n empty_output)"
  using buildContents_extend [of h p n out empty_output] by (simp add: extend_empty)

lemma prefix_extend:
  "prefix (structure_text a) (structure_text (extend a b))"
  "prefix (contents_text a) (contents_text (extend a b))"
  "prefix (console a) (console (extend a b))"
  by (simp_all add: extend_def)

subsection \<open>The filter\<close>

lemma matchesOnly_returns:
  "engine_accepts re only \<Longrightarrow> \<exists>b. matchesOnly re only p = Inr b"
proof (induction only)
  case Nil
  show ?case by auto
next
  case (Cons pattern rest)
  from Cons.prems obtain b where "re (regex_source pattern) p = Inr b"
    unfolding never_throws_def engine_accepts_def by auto
  moreover from Cons.prems have "engine_accepts re rest"
    unfolding engine_accepts_def by simp
  ultimately show ?case using Cons.IH by (cases b) auto
qed

lemma keepEntry_returns:
  assumes "engine_accepts re only" and "never_throws ig"
  shows "\<exists>b. keepEntry re currentDir rootDir ig only entry = Inr b"
proof -
  obtain b where b: "matchesOnly re only (checkPath_of currentDir rootDir entry) = Inr b"
    using matchesOnly_returns [OF assms(1)] by blast
  obtain c where c: "ig (checkPath_of currentDir rootDir entry) = Inr c"
    using assms(2) unfolding never_throws_def by blast
  show ?thesis
    by (cases b) (auto simp: keepEntry_def Let_def b c)
qed

lemma filterE_Inr:
  "filterE keep xs = Inr ys \<Longrightarrow> ys = filter (\<lambda>x. keep x = Inr True) xs"
proof (induction xs arbitrary: ys)
  case Nil
  then show ?case by simp
next
  case (Cons x xs)
  then show ?case
    by (auto split: sum.splits if_splits)
qed

lemma filterE_returns:
  "(\<And>x. \<exists>b. keep x = Inr b) \<Longrightarrow> \<exists>ys. filterE keep xs = Inr ys"
proof (induction xs)
  case Nil
  then show ?case by simp
next
  case (Cons x xs)
  obtain b where "keep x = Inr b" using Cons.prems by blast
  moreover obtain ys where "filterE keep xs = Inr ys" using Cons by blast
  ultimately show ?case by simp
qed

lemma filterE_drop:
  "keep x = Inr False \<Longrightarrow> filterE keep (xs @ x # ys) = filterE keep (xs @ ys)"
  by (induction xs) (simp_all split: sum.splits)

lemma validEntries_returns:
  assumes "engine_accepts re only" and "never_throws ig"
  shows "\<exists>ves. validEntries re currentDir rootDir ig only entries = Inr ves"
  unfolding validEntries_def
  by (rule filterE_returns) (rule keepEntry_returns [OF assms])

subsection \<open>No exception but from the engine or the ignore instance\<close>

lemma walk_returns:
  assumes "engine_accepts re only" and "never_throws ig"
  shows "fst (traverseDirectory re node currentDir rootDir ig pfx out only h) = None"
    and "fst (visitEntries re currentDir rootDir ig pfx only h ves out) = None"
  using assms
proof (induction re node currentDir rootDir ig pfx out only h
    and re currentDir rootDir ig pfx only h ves out
    rule: traverseDirectory_visitEntries.induct)
  case (1 re node currentDir rootDir ig pfx out only includeContentsHeader)
  show ?case
  proof (cases "readdir node")
    case (Inl e)
    then show ?thesis by (simp add: traverseDirectory.simps)
  next
    case (Inr entries)
    obtain ves where ves: "validEntries re currentDir rootDir ig only entries = Inr ves"
      using validEntries_returns [OF 1(2,3)] by blast
    show ?thesis
      using 1(1) [OF Inr ves 1(2,3)] Inr ves by (simp add: traverseDirectory.simps)
  qed
next
  case (2 re currentDir rootDir ig pfx only includeContentsHeader out)
  then show ?case by simp
next
  case (3 re currentDir rootDir ig pfx only includeContentsHeader entry rest out)
  let ?abs = "path_join currentDir (fst entry)"
  let ?conn = "if rest = [] then connector_last else connector_mid"
  let ?np = "pfx @ (if rest = [] then indent_last else indent_mid)"
  let ?out1 = "out\<lparr>structure_text := structure_text out @ pfx @ ?conn @ fst entry @ nl\<rparr>"
  show ?case
  proof (cases "isDirectory (snd entry)")
    case True
    obtain r o2 where eq: "traverseDirectory re (snd entry) ?abs rootDir ig ?np ?out1 only
        includeContentsHeader = (r, o2)"
      by (cases "traverseDirectory re (snd entry) ?abs rootDir ig ?np ?out1 only
        includeContentsHeader")
    have r: "r = None"
      using 3(1) [OF refl refl refl refl refl True 3(5,6)] eq by simp
    show ?thesis
      using True eq r 3(2) [OF refl refl refl refl refl True eq [symmetric] r 3(5,6)]
      by (simp add: Let_def)
  next
    case False
    note nd = False
    show ?thesis
    proof (cases "isFile (snd entry)")
      case True
      show ?thesis
        using nd True 3(3) [OF refl refl refl refl refl nd True 3(5,6)]
        by (simp add: Let_def)
    next
      case False
      show ?thesis
        using nd False 3(4) [OF refl refl refl refl refl nd False 3(5,6)]
        by (simp add: Let_def)
    qed
  qed
qed

subsection \<open>The structure text of a visit\<close>

lemma rendered_listing_Cons:
  "rendered_listing re currentDir rootDir ig only h pfx (entry # rest) =
     rendered_entry re currentDir rootDir ig only h pfx (rest = []) entry @
     rendered_listing re currentDir rootDir ig only h pfx rest"
  by (cases "rest = []") (simp_all add: rendered_listing_def)

lemma structure_buildContents:
  "structure_text (buildContents h p n out) = structure_text out"
  by (simp add: buildContents_def Let_def split: read_outcome.splits)

lemma visitEntries_rendered:
  "fst (visitEntries re currentDir rootDir ig pfx only h ves out) = None \<Longrightarrow>
   structure_text (snd (visitEntries re currentDir rootDir ig pfx only h ves out)) =
     structure_text out @ rendered_listing re currentDir rootDir ig only h pfx ves"
proof (induction ves arbitrary: out)
  case Nil
  then show ?case by (simp add: rendered_listing_def)
next
  case (Cons entry rest)
  let ?abs = "path_join currentDir (fst entry)"
  let ?conn = "if rest = [] then connector_last else connector_mid"
  let ?np = "pfx @ (if rest = [] then indent_last else indent_mid)"
  let ?out1 = "out\<lparr>structure_text := structure_text out @ pfx @ ?conn @ fst entry @ nl\<rparr>"
  show ?case
  proof (cases "isDirectory (snd entry)")
    case True
    let ?sub = "traverseDirectory re (snd entry) ?abs rootDir ig ?np empty_output only h"
    have eq: "traverseDirectory re (snd entry) ?abs rootDir ig ?np ?out1 only h =
        (fst ?sub, extend ?out1 (snd ?sub))"
      by (rule traverseDirectory_from_empty)
    have r: "fst ?sub = None"
      using Cons.prems True eq by (cases "fst ?sub") (simp_all add: Let_def)
    have step: "visitEntries re currentDir rootDir ig pfx only h (entry # rest) out =
        visitEntries re currentDir rootDir ig pfx only h rest (extend ?out1 (snd ?sub))"
      using True eq r by (simp add: Let_def)
    have "structure_text (extend ?out1 (snd ?sub)) =
        structure_text out @ rendered_entry re currentDir rootDir ig only h pfx (rest = []) entry"
      using True by (simp add: extend_def rendered_entry_def subtree_text_def)
    then show ?thesis
      using Cons.IH [of "extend ?out1 (snd ?sub)"] Cons.prems step
      by (simp add: rendered_listing_Cons)
  next
    case False
    have sub: "rendered_entry re currentDir rootDir ig only h pfx (rest = []) entry =
        pfx @ ?conn @ fst entry @ nl"
      using False by (simp add: rendered_entry_def subtree_text_def)
    show ?thesis
    proof (cases "isFile (snd entry)")
      case True
      let ?out2 = "buildContents h (path_relative rootDir ?abs) (snd entry) ?out1"
      have step: "visitEntries re currentDir rootDir ig pfx only h (entry # rest) out =
          visitEntries re currentDir rootDir ig pfx only h rest ?out2"
        using False True by (simp add: Let_def)
      show ?thesis
        using Cons.IH [of ?out2] Cons.prems step sub
        by (simp add: rendered_listing_Cons structure_buildContents)
    next
      case nf: False
      have step: "visitEntries re currentDir rootDir ig pfx only h (entry # rest) out =
          visitEntries re currentDir rootDir ig pfx only h rest ?out1"
        using False nf by (simp add: Let_def)
      show ?thesis
        using Cons.IH [of ?out1] Cons.prems step sub
        by (simp add: rendered_listing_Cons)
    qed
  qed
qed

subsection \<open>A read that fails\<close>

text \<open>
  The handler of lines 219 to 225: when the read of a file is rejected with a message
  that mentions \<^verbatim>\<open>invalid\<close> or \<^verbatim>\<open>buffer\<close>, the entry has its structure line, the
  contents buffer is left as it is and the console receives a log line.
\<close>

lemma rejected_read_logged:
  "str_includes (err_message e) ''invalid'' \<or> str_includes (err_message e) ''buffer'' \<Longrightarrow>
   visitEntries re currentDir rootDir ig pfx only h ((name, File (ReadFails e)) # rest) out =
     visitEntries re currentDir rootDir ig pfx only h rest
       (out\<lparr>structure_text := structure_text out @ pfx @
               (if rest = [] then connector_last else connector_mid) @ name @ nl,
             console := console out @
               [Log (''Skipping likely binary file: '' @
                     path_relative rootDir (path_join currentDir name))]\<rparr>)"
  by (simp add: Let_def buildContents_def)

subsection \<open>The glob translation\<close>

lemma replace_star_star_id: "CHR ''*'' \<notin> set p \<Longrightarrow> replace_star_star p = p"
  by (induction p rule: replace_star_star.induct) auto

lemma replace_star_id: "CHR ''*'' \<notin> set p \<Longrightarrow> replace_star p = p"
  by (induction p) auto

subsection \<open>Instances that return\<close>

lemma builtin_rules_in_fragment: "list_all in_fragment (ig_add [] ALWAYS_IGNORE)"
  by code_simp

lemma instance_of_never_throws: "list_all in_fragment rs \<Longrightarrow> never_throws (instance_of rs)"
  by (simp add: never_throws_def instance_of_def)

lemma engine_accepts_Nil: "engine_accepts re []"
  by (simp add: engine_accepts_def)

section \<open>The properties of the specification\<close>

subsection \<open>C1: a whitelist of one glob under a directory\<close>

text \<open>
  C1. The claim is that with the whitelist \<^verbatim>\<open>["src/**"]\<close>, over a tree that holds
  \<^verbatim>\<open>src/a.txt\<close>, \<^verbatim>\<open>src/nested/b.txt\<close> and \<^verbatim>\<open>lib/c.txt\<close>, the walk admits the two
  files below \<^verbatim>\<open>src\<close> and leaves out \<^verbatim>\<open>lib/c.txt\<close>. The whitelist test does
  accept the two relative paths and reject the third. But the walk tests the directory
  \<^verbatim>\<open>src\<close> first, as \<^verbatim>\<open>src/\<close>, which the pattern (one character or more after the
  separator) rejects: the directory is filtered out and never entered. On this tree the
  walk emits the root line and the document header, and nothing else.
\<close>

theorem whitelist_src_glob_admits_nothing:
  "matchesOnly js_regexp_test [''src/**''] ''src/a.txt'' = Inr True \<and>
   matchesOnly js_regexp_test [''src/**''] ''src/nested/b.txt'' = Inr True \<and>
   matchesOnly js_regexp_test [''src/**''] ''lib/c.txt'' = Inr False \<and>
   matchesOnly js_regexp_test [''src/**''] ''src/'' = Inr False \<and>
   main js_regexp_test ''/home/user/root'' (default_config\<lparr>cfg_only := [''src/**'']\<rparr>) enoent
     (Dir [(''src'', Dir [(''a.txt'', File (Content ''A'')),
                          (''nested'', Dir [(''b.txt'', File (Content ''B''))])]),
           (''lib'', Dir [(''c.txt'', File (Content ''C''))])]) =
   (None,
    \<lparr>structure_text = ''root'' @ nl,
     contents_text = ''/* --- Contents from directory: /home/user/root --- */'' @ nl,
     console = [Log ''.gitignore not found, using default ignore rules.'',
                Log ''Starting directory traversal...'']\<rparr>)"
  by code_simp

subsection \<open>C2: binary files\<close>

text \<open>
  C2. The claim is that a regular file whose bytes are not valid text gets its structure
  line and nothing in the contents buffer, with an informational log line. The code
  means to do so (line 211: if the read fails, the file is likely binary, so skip), but
  the read of such a file does not fail: for every byte sequence the read resolves with
  the decoded text, and lines 213 to 218 append the optional header, that text and a
  newline, and log nothing. For a file \<^verbatim>\<open>logo.png\<close> that holds the signature of a PNG
  image, with the header flag on, the walk appends the header, the replacement
  character, the seven other bytes and a newline to the contents buffer, and the console
  stays empty.
\<close>

theorem binary_file_contents_appended:
  "buildContents h relativePath (File (readFile_utf8 bytes)) out =
     out\<lparr>contents_text := contents_text out @ (if h then file_header relativePath else []) @
            toString_utf8 bytes @ nl\<rparr> \<and>
   toString_utf8 png_signature =
     replacement_character @ ''PNG'' @ [CHR 0x0D, CHR 0x0A, CHR 0x1A, CHR 0x0A] \<and>
   traverseDirectory js_regexp_test (Dir [(''logo.png'', File (readFile_utf8 png_signature))])
     ''/home/user/root'' ''/home/user/root'' (instance_of (ig_add [] ALWAYS_IGNORE)) []
     empty_output [] True =
   (None,
    \<lparr>structure_text = connector_last @ ''logo.png'' @ nl,
     contents_text =
       nl @ ''/* --- File: logo.png --- */'' @ nl @ nl @
       replacement_character @ ''PNG'' @ [CHR 0x0D, CHR 0x0A, CHR 0x1A, CHR 0x0A] @ nl,
     console = []\<rparr>)"
proof -
  have "buildContents h relativePath (File (readFile_utf8 bytes)) out =
     out\<lparr>contents_text := contents_text out @ (if h then file_header relativePath else []) @
            toString_utf8 bytes @ nl\<rparr>"
    by (simp add: buildContents_def readFile_utf8_def Let_def)
  moreover have "toString_utf8 png_signature =
     replacement_character @ ''PNG'' @ [CHR 0x0D, CHR 0x0A, CHR 0x1A, CHR 0x0A]"
    by code_simp
  moreover have "traverseDirectory js_regexp_test
     (Dir [(''logo.png'', File (readFile_utf8 png_signature))])
     ''/home/user/root'' ''/home/user/root'' (instance_of (ig_add [] ALWAYS_IGNORE)) []
     empty_output [] True =
   (None,
    \<lparr>structure_text = connector_last @ ''logo.png'' @ nl,
     contents_text =
       nl @ ''/* --- File: logo.png --- */'' @ nl @ nl @
       replacement_character @ ''PNG'' @ [CHR 0x0D, CHR 0x0A, CHR 0x1A, CHR 0x0A] @ nl,
     console = []\<rparr>)"
    by code_simp
  ultimately show ?thesis by blast
qed

subsection \<open>C3: the built-in names\<close>

text \<open>
  C3. The claim is that the built-in names never reach the output, whatever the rules
  file and the extra patterns hold; the code says as much of \<open>ALWAYS_IGNORE\<close> (line 12:
  files and directories to always ignore). But \<open>loadGitignore\<close> makes the built-in rules
  the first of the instance, and the rules file and the extra patterns are added after
  them, so a later rule that negates a built-in one takes it back. With the extra
  pattern \<^verbatim>\<open>!node_modules\<close> the directory \<^verbatim>\<open>node_modules\<close> and its file are in both
  outputs; with a rules file that ignores all but directories and text files, the
  \<^verbatim>\<open>structure.txt\<close> of an earlier run is in both outputs.
\<close>

theorem negation_reincludes_builtin_names:
  "main js_regexp_test ''/home/user/root'' (default_config\<lparr>cfg_ignores := [''!node_modules'']\<rparr>)
     enoent (Dir [(''node_modules'', Dir [(''x.js'', File (Content ''1''))])]) =
   (None,
    \<lparr>structure_text =
       ''root'' @ nl @ connector_last @ ''node_modules'' @ nl @
       indent_last @ connector_last @ ''x.js'' @ nl,
     contents_text =
       ''/* --- Contents from directory: /home/user/root --- */'' @ nl @
       nl @ ''/* --- File: node_modules/x.js --- */'' @ nl @ nl @ ''1'' @ nl,
     console = [Log ''.gitignore not found, using default ignore rules.'',
                Log ''Starting directory traversal...'']\<rparr>) \<and>
   main js_regexp_test ''/home/user/root'' default_config
     (Content (''*'' @ nl @ ''!*/'' @ nl @ ''!*.txt'' @ nl))
     (Dir [(''structure.txt'', File (Content ''root''))]) =
   (None,
    \<lparr>structure_text = ''root'' @ nl @ connector_last @ ''structure.txt'' @ nl,
     contents_text =
       ''/* --- Contents from directory: /home/user/root --- */'' @ nl @
       nl @ ''/* --- File: structure.txt --- */'' @ nl @ nl @ ''root'' @ nl,
     console = [Log ''Loaded rules from /home/user/root/.gitignore'',
                Log ''Starting directory traversal...'']\<rparr>)"
  by code_simp

subsection \<open>C4: connectors\<close>

text \<open>
  C4. In a directory visit that no exception ends, the structure text appended is the
  rendering of the entries that survive both filters, in their listing order: the
  branching connector for all but the last survivor, the terminal connector for the last
  survivor, each line followed by the lines of the entry's own walk. The last is the
  last of the filtered listing, so when the last raw entry is ignored the terminal
  connector is on the last survivor.
\<close>

theorem connectors_follow_filtered_listing:
  assumes "fst (traverseDirectory re (Dir entries) currentDir rootDir ig pfx out only h) = None"
  shows "structure_text (snd (traverseDirectory re (Dir entries) currentDir rootDir ig pfx out only h)) =
     structure_text out @
     rendered_listing re currentDir rootDir ig only h pfx
       (filter (\<lambda>entry. keepEntry re currentDir rootDir ig only entry = Inr True) entries)"
proof (cases "validEntries re currentDir rootDir ig only entries")
  case (Inl e)
  with assms show ?thesis by (simp add: traverseDirectory.simps)
next
  case (Inr ves)
  then have ves: "ves = filter (\<lambda>entry. keepEntry re currentDir rootDir ig only entry = Inr True) entries"
    unfolding validEntries_def by (rule filterE_Inr)
  have t: "traverseDirectory re (Dir entries) currentDir rootDir ig pfx out only h =
      visitEntries re currentDir rootDir ig pfx only h ves out"
    using Inr by (simp add: traverseDirectory.simps)
  show ?thesis
    using assms visitEntries_rendered [of re currentDir rootDir ig pfx only h ves out]
    unfolding t ves by simp
qed

theorem connectors_follow_filtered_listing_witness:
  "fst (traverseDirectory js_regexp_test
     (Dir [(''a.txt'', File (Content ''A'')), (''b'', Dir [(''c.txt'', File (Content ''C''))]),
           (''node_modules'', Dir [(''x.js'', File (Content ''X''))])])
     ''/home/user/root'' ''/home/user/root'' (instance_of (ig_add [] ALWAYS_IGNORE)) []
     empty_output [] True) = None \<and>
   structure_text (snd (traverseDirectory js_regexp_test
     (Dir [(''a.txt'', File (Content ''A'')), (''b'', Dir [(''c.txt'', File (Content ''C''))]),
           (''node_modules'', Dir [(''x.js'', File (Content ''X''))])])
     ''/home/user/root'' ''/home/user/root'' (instance_of (ig_add [] ALWAYS_IGNORE)) []
     empty_output [] True)) =
   connector_mid @ ''a.txt'' @ nl @ connector_last @ ''b'' @ nl @
   indent_last @ connector_last @ ''c.txt'' @ nl"
proof -
  let ?ig = "instance_of (ig_add [] ALWAYS_IGNORE)"
  let ?es = "[(''a.txt'', File (Content ''A'')), (''b'', Dir [(''c.txt'', File (Content ''C''))]),
           (''node_modules'', Dir [(''x.js'', File (Content ''X''))])]"
  have h: "fst (traverseDirectory js_regexp_test (Dir ?es)
     ''/home/user/root'' ''/home/user/root'' ?ig [] empty_output [] True) = None"
    by code_simp
  have r: "rendered_listing js_regexp_test ''/home/user/root'' ''/home/user/root'' ?ig [] True []
       (filter (\<lambda>entry. keepEntry js_regexp_test ''/home/user/root'' ''/home/user/root'' ?ig []
                  entry = Inr True) ?es) =
     connector_mid @ ''a.txt'' @ nl @ connector_last @ ''b'' @ nl @
     indent_last @ connector_last @ ''c.txt'' @ nl"
    by code_simp
  show ?thesis
    using h connectors_follow_filtered_listing [OF h] r
    by (simp add: empty_output_def)
qed

subsection \<open>C5: the scenario of the spec\<close>

text \<open>
  C5. A root named \<^verbatim>\<open>root\<close> holds \<^verbatim>\<open>a.txt\<close> with text \<^verbatim>\<open>hello\<close>, a directory
  \<^verbatim>\<open>b\<close> with \<^verbatim>\<open>c.txt\<close> of text \<^verbatim>\<open>world\<close>, and a \<^verbatim>\<open>.git\<close> directory. Under
  the default configuration the structure text is the root line, the line of
  \<^verbatim>\<open>a.txt\<close>, the line of \<^verbatim>\<open>b\<close> with the terminal connector and the line of
  \<^verbatim>\<open>c.txt\<close> under four spaces; the contents text is the document header, then the
  header of \<^verbatim>\<open>a.txt\<close> and \<^verbatim>\<open>hello\<close> with a newline, then the header of
  \<^verbatim>\<open>b/c.txt\<close> and \<^verbatim>\<open>world\<close> with a newline.
\<close>

theorem scenario_default_config:
  "main js_regexp_test ''/home/user/root'' default_config enoent
     (Dir [(''a.txt'', File (Content ''hello'')),
           (''b'', Dir [(''c.txt'', File (Content ''world''))]),
           (''.git'', Dir [(''HEAD'', File (Content ''ref: refs/heads/main''))])]) =
   (None,
    \<lparr>structure_text =
       ''root'' @ nl @
       connector_mid @ ''a.txt'' @ nl @
       connector_last @ ''b'' @ nl @
       ''    '' @ connector_last @ ''c.txt'' @ nl,
     contents_text =
       ''/* --- Contents from directory: /home/user/root --- */'' @ nl @
       nl @ ''/* --- File: a.txt --- */'' @ nl @ nl @ ''hello'' @ nl @
       nl @ ''/* --- File: b/c.txt --- */'' @ nl @ nl @ ''world'' @ nl,
     console = [Log ''.gitignore not found, using default ignore rules.'',
                Log ''Starting directory traversal...'']\<rparr>)"
  by code_simp

subsection \<open>C6: the per-file header\<close>

text \<open>
  C6, as stated: with the header flag on, a file read with success appends exactly the
  header comment, a blank line, the content and a newline. The code appends a newline
  before the header comment; for \<^verbatim>\<open>a.txt\<close> with text \<^verbatim>\<open>hello\<close> the contents
  buffer is not the text the claim gives.
\<close>

theorem file_header_counterexample:
  "contents_text (snd (traverseDirectory js_regexp_test (Dir [(''a.txt'', File (Content ''hello''))])
      ''/home/user/root'' ''/home/user/root'' (instance_of (ig_add [] ALWAYS_IGNORE)) []
      empty_output [] True))
   \<noteq> ''/* --- File: a.txt --- */'' @ nl @ nl @ ''hello'' @ nl"
  by code_simp

text \<open>
  C6, amended: with the header flag on, a file read with success appends exactly a
  newline, the header comment \<^verbatim>\<open>/* --- File: <relativePath> --- */\<close>, two newlines
  (the end of the header line and a blank line), the content of the file, and a newline;
  the entry's structure line is appended too, and the loop goes on with the next entry.
\<close>

theorem file_contents_appended:
  "visitEntries re currentDir rootDir ig pfx only True ((name, File (Content content)) # rest) out =
     visitEntries re currentDir rootDir ig pfx only True rest
       (out\<lparr>structure_text := structure_text out @ pfx @
               (if rest = [] then connector_last else connector_mid) @ name @ nl,
             contents_text := contents_text out @ nl @ ''/* --- File: '' @
               path_relative rootDir (path_join currentDir name) @ '' --- */'' @ nl @ nl @
               content @ nl\<rparr>)"
  by (simp add: Let_def buildContents_def file_header_def)

subsection \<open>C7: a listing that fails\<close>

text \<open>
  C7. When the listing of a directory fails, the visit returns normally with one warning
  added to the console and the buffers as they were. In the loop of the parent, an entry
  that is such a directory gets its structure line and the warning, and the loop goes on
  with the entries that follow. No failure of a listing or of a read ends the walk: when
  the engine compiles the patterns of the whitelist and the ignore instance returns, the
  walk of any tree ends without an exception.
\<close>

theorem listing_failure_not_fatal:
  "(readdir node = Inl e \<longrightarrow>
      traverseDirectory re node currentDir rootDir ig pfx out only h =
        (None, out\<lparr>console := console out @
           [Warn (''Warning: Could not read directory '' @ currentDir @ '': '' @ err_message e)]\<rparr>)) \<and>
   visitEntries re currentDir rootDir ig pfx only h ((name, DirUnreadable e') # rest) out =
      visitEntries re currentDir rootDir ig pfx only h rest
        (out\<lparr>structure_text := structure_text out @ pfx @
                (if rest = [] then connector_last else connector_mid) @ name @ nl,
              console := console out @
                [Warn (''Warning: Could not read directory '' @ path_join currentDir name @
                       '': '' @ err_message e')]\<rparr>) \<and>
   (engine_accepts re only \<and> never_throws ig \<longrightarrow>
      fst (traverseDirectory re tree currentDir rootDir ig pfx out only h) = None \<and>
      fst (visitEntries re currentDir rootDir ig pfx only h entries out) = None)"
proof (intro conjI impI)
  assume "readdir node = Inl e"
  then show "traverseDirectory re node currentDir rootDir ig pfx out only h =
        (None, out\<lparr>console := console out @
           [Warn (''Warning: Could not read directory '' @ currentDir @ '': '' @ err_message e)]\<rparr>)"
    by (simp add: traverseDirectory.simps)
next
  show "visitEntries re currentDir rootDir ig pfx only h ((name, DirUnreadable e') # rest) out =
      visitEntries re currentDir rootDir ig pfx only h rest
        (out\<lparr>structure_text := structure_text out @ pfx @
                (if rest = [] then connector_last else connector_mid) @ name @ nl,
              console := console out @
                [Warn (''Warning: Could not read directory '' @ path_join currentDir name @
                       '': '' @ err_message e')]\<rparr>)"
    by (simp add: Let_def traverseDirectory.simps)
next
  assume "engine_accepts re only \<and> never_throws ig"
  then show "fst (traverseDirectory re tree currentDir rootDir ig pfx out only h) = None"
    by (simp add: walk_returns(1))
next
  assume "engine_accepts re only \<and> never_throws ig"
  then show "fst (visitEntries re currentDir rootDir ig pfx only h entries out) = None"
    by (simp add: walk_returns(2))
qed

theorem listing_failure_not_fatal_witness:
  "readdir (DirUnreadable (IOError ''EACCES'' ''EACCES: permission denied, scandir'')) =
     Inl (IOError ''EACCES'' ''EACCES: permission denied, scandir'') \<and>
   engine_accepts js_regexp_test [] \<and>
   never_throws (instance_of (ig_add [] ALWAYS_IGNORE)) \<and>
   traverseDirectory js_regexp_test
     (Dir [(''locked'', DirUnreadable (IOError ''EACCES'' ''EACCES: permission denied, scandir'')),
           (''a.txt'', File (Content ''hello''))])
     ''/home/user/root'' ''/home/user/root'' (instance_of (ig_add [] ALWAYS_IGNORE)) []
     empty_output [] False =
   (None,
    \<lparr>structure_text = connector_mid @ ''locked'' @ nl @ connector_last @ ''a.txt'' @ nl,
     contents_text = ''hello'' @ nl,
     console = [Warn (''Warning: Could not read directory /home/user/root/locked: '' @
                      ''EACCES: permission denied, scandir'')]\<rparr>)"
proof -
  let ?e = "IOError ''EACCES'' ''EACCES: permission denied, scandir''"
  let ?ig = "instance_of (ig_add [] ALWAYS_IGNORE)"
  let ?tree = "Dir [(''locked'', DirUnreadable ?e), (''a.txt'', File (Content ''hello''))]"
  note t = listing_failure_not_fatal [of "DirUnreadable ?e" ?e js_regexp_test
      "''/home/user/root''" "''/home/user/root''" ?ig "[]" empty_output "[]" False
      "''locked''" ?e "[(''a.txt'', File (Content ''hello''))]" ?tree "[]"]
  have v: "validEntries js_regexp_test ''/home/user/root'' ''/home/user/root'' ?ig []
      [(''locked'', DirUnreadable ?e), (''a.txt'', File (Content ''hello''))] =
      Inr [(''locked'', DirUnreadable ?e), (''a.txt'', File (Content ''hello''))]"
    by code_simp
  have "traverseDirectory js_regexp_test ?tree ''/home/user/root'' ''/home/user/root'' ?ig []
      empty_output [] False =
    visitEntries js_regexp_test ''/home/user/root'' ''/home/user/root'' ?ig [] [] False
      [(''locked'', DirUnreadable ?e), (''a.txt'', File (Content ''hello''))] empty_output"
    by (simp add: traverseDirectory.simps v)
  then show ?thesis
    using t
    by (simp add: instance_of_never_throws [OF builtin_rules_in_fragment] engine_accepts_Nil empty_output_def
        buildContents_def Let_def path_join_def path_relative_def)
qed

subsection \<open>C8: the buffers only grow\<close>

text \<open>
  C8. Throughout a traversal the structure and contents buffers only grow: the buffers
  of the output a walk starts from are prefixes of the buffers it ends with. This holds
  for the whole walk and for every part of it: the visit of any directory, the loop from
  any entry on, and the read of any file; after a listing or a read that failed (which
  only writes to the console); and when an exception ends the walk early.
\<close>

theorem buffers_append_only:
  "prefix (structure_text out)
     (structure_text (snd (traverseDirectory re node currentDir rootDir ig pfx out only h))) \<and>
   prefix (contents_text out)
     (contents_text (snd (traverseDirectory re node currentDir rootDir ig pfx out only h))) \<and>
   prefix (structure_text out)
     (structure_text (snd (visitEntries re currentDir rootDir ig pfx only h ves out))) \<and>
   prefix (contents_text out)
     (contents_text (snd (visitEntries re currentDir rootDir ig pfx only h ves out))) \<and>
   prefix (structure_text out) (structure_text (buildContents h p n out)) \<and>
   prefix (contents_text out) (contents_text (buildContents h p n out))"
proof -
  have t: "snd (traverseDirectory re node currentDir rootDir ig pfx out only h) =
      extend out (snd (traverseDirectory re node currentDir rootDir ig pfx empty_output only h))"
    by (subst traverseDirectory_from_empty) simp
  have v: "snd (visitEntries re currentDir rootDir ig pfx only h ves out) =
      extend out (snd (visitEntries re currentDir rootDir ig pfx only h ves empty_output))"
    by (subst visitEntries_from_empty) simp
  have b: "buildContents h p n out = extend out (buildContents h p n empty_output)"
    by (rule buildContents_from_empty)
  show ?thesis
    unfolding t v b by (simp add: prefix_extend)
qed

subsection \<open>C9: the whitelist and directories\<close>

text \<open>
  C9. With a whitelist that is not empty, a directory entry is tested against the
  whitelist on its relative path with a separator appended. A directory that fails the
  test is filtered out: the walk of the listing is the walk of the listing without the
  entry, whatever the directory holds, so nothing below it reaches the output, also
  what would itself pass the whitelist.
\<close>

theorem unlisted_directory_not_entered:
  assumes "only \<noteq> []" and "isDirectory node"
    and "matchesOnly re only (path_relative rootDir (path_join currentDir name) @ ''/'') = Inr False"
  shows "checkPath_of currentDir rootDir (name, node) =
           path_relative rootDir (path_join currentDir name) @ ''/'' \<and>
         keepEntry re currentDir rootDir ig only (name, node) = Inr False \<and>
         traverseDirectory re (Dir (before @ (name, node) # after)) currentDir rootDir ig pfx out only h =
         traverseDirectory re (Dir (before @ after)) currentDir rootDir ig pfx out only h"
proof -
  have c: "checkPath_of currentDir rootDir (name, node) =
      path_relative rootDir (path_join currentDir name) @ ''/''"
    using assms(2) by (simp add: checkPath_of_def Let_def)
  have k: "keepEntry re currentDir rootDir ig only (name, node) = Inr False"
    using assms(1,3) c by (simp add: keepEntry_def Let_def)
  have "validEntries re currentDir rootDir ig only (before @ (name, node) # after) =
      validEntries re currentDir rootDir ig only (before @ after)"
    unfolding validEntries_def using k by (rule filterE_drop)
  then show ?thesis
    using c k by (simp add: traverseDirectory.simps)
qed

theorem unlisted_directory_not_entered_witness:
  "[''src/**''] \<noteq> [] \<and>
   isDirectory (Dir [(''a.txt'', File (Content ''A''))]) \<and>
   matchesOnly js_regexp_test [''src/**''] ''src/'' = Inr False \<and>
   matchesOnly js_regexp_test [''src/**''] ''src/a.txt'' = Inr True \<and>
   traverseDirectory js_regexp_test
     (Dir [(''README.md'', File (Content ''R'')), (''src'', Dir [(''a.txt'', File (Content ''A''))])])
     ''/home/user/root'' ''/home/user/root'' (instance_of (ig_add [] ALWAYS_IGNORE)) []
     empty_output [''src/**''] True =
   traverseDirectory js_regexp_test (Dir [(''README.md'', File (Content ''R''))])
     ''/home/user/root'' ''/home/user/root'' (instance_of (ig_add [] ALWAYS_IGNORE)) []
     empty_output [''src/**''] True"
proof -
  have a: "[''src/**''] \<noteq> ([] :: string list)" by simp
  have b: "isDirectory (Dir [(''a.txt'', File (Content ''A''))])" by simp
  have p: "path_relative ''/home/user/root'' (path_join ''/home/user/root'' ''src'') @ ''/'' = ''src/''"
    by code_simp
  have c: "matchesOnly js_regexp_test [''src/**'']
      (path_relative ''/home/user/root'' (path_join ''/home/user/root'' ''src'') @ ''/'') = Inr False"
    unfolding p by code_simp
  have d: "matchesOnly js_regexp_test [''src/**''] ''src/a.txt'' = Inr True" by code_simp
  show ?thesis
    using a b c d unlisted_directory_not_entered [OF a b c,
        of "instance_of (ig_add [] ALWAYS_IGNORE)" "[(''README.md'', File (Content ''R''))]" "[]"
          "[]" empty_output True]
    unfolding p by simp
qed

subsection \<open>C10: the whitelist patterns are not escaped\<close>

text \<open>
  C10. The regular expression of a whitelist pattern is the pattern between \<^verbatim>\<open>^\<close>
  and \<^verbatim>\<open>$\<close>, with two stars replaced by \<^verbatim>\<open>(.+)\<close> and one star by \<^verbatim>\<open>([^/]+)\<close>; a
  pattern without a star is taken as it is, so its other characters keep their meaning
  in a regular expression. With the whitelist \<^verbatim>\<open>a.txt\<close>, the entry \<^verbatim>\<open>aXtxt\<close>
  passes the filter.
\<close>

theorem whitelist_regex_unescaped:
  "(CHR ''*'' \<notin> set pattern \<longrightarrow> regex_source pattern = ''^'' @ pattern @ ''$'') \<and>
   regex_source ''**'' = ''^(.+)$'' \<and>
   regex_source ''*'' = ''^([^/]+)$'' \<and>
   regex_source ''a.txt'' = ''^a.txt$'' \<and>
   keepEntry js_regexp_test ''/home/user/root'' ''/home/user/root''
     (instance_of (ig_add [] ALWAYS_IGNORE)) [''a.txt''] (''aXtxt'', File (Content ''x'')) = Inr True"
proof -
  have "CHR ''*'' \<notin> set pattern \<longrightarrow> regex_source pattern = ''^'' @ pattern @ ''$''"
    by (simp add: regex_source_def replace_star_star_id replace_star_id)
  moreover have "regex_source ''**'' = ''^(.+)$''" by code_simp
  moreover have "regex_source ''*'' = ''^([^/]+)$''" by code_simp
  moreover have "regex_source ''a.txt'' = ''^a.txt$''" by code_simp
  moreover have "keepEntry js_regexp_test ''/home/user/root'' ''/home/user/root''
     (instance_of (ig_add [] ALWAYS_IGNORE)) [''a.txt''] (''aXtxt'', File (Content ''x'')) = Inr True"
    by code_simp
  ultimately show ?thesis by blast
qed

theorem whitelist_regex_unescaped_witness:
  "CHR ''*'' \<notin> set ''lib/a+b.js'' \<and> regex_source ''lib/a+b.js'' = ''^lib/a+b.js$''"
  using whitelist_regex_unescaped [of "''lib/a+b.js''"] by simp

end
